theory Spec2Isabelle
  imports Complex_Main "HOL-Library.AList" "HOL-Library.Char_ord" "HOL-Library.List_Lexorder"
begin

section \<open>Python values, errors and the sequencing of raising code\<close>

text \<open>
  The helper module \<^verbatim>\<open>plotly_extras_0_2.py\<close> raises \<^verbatim>\<open>ValueError\<close> with a message
  for its own input checks; the other constructors are the built-in exceptions that its
  arithmetic, indexing and library calls raise. A function that may raise returns
  \<open>error + 'a\<close>, with \<open>Inl\<close> for the exception.

  Conventions of the embedding:
  \<^item> a cell of a DataFrame column or an element of an input list is a string or a Python
    \<^verbatim>\<open>int\<close> (\<open>cell\<close>); float-valued cells are not modelled;
  \<^item> a Python \<^verbatim>\<open>float\<close> that the module computes itself (colour channels, colour-scale
    positions, tick values) is read as the exact rational it approximates (\<open>rat\<close>);
  \<^item> a \<^verbatim>\<open>dict\<close> is an association list in insertion order;
  \<^item> a DataFrame is the list of its columns, each a name with its cells; column names
    are taken to be distinct strings, as pandas needs for \<^verbatim>\<open>df[name].tolist()\<close>;
  \<^item> plotly's constructors are record constructors: they store their arguments and
    plotly's own validation of colour strings is not modelled;
  \<^item> the source's variables \<^verbatim>\<open>total\<close> and \<^verbatim>\<open>measure\<close> are written \<open>total_count\<close> and
    \<open>measure_arg\<close>, since HOL has constants of those names.
\<close>

datatype error = ValueError string | ZeroDivisionError | IndexError | KeyError | TypeError

datatype cell = Str string | Num int

definition bind_err :: "error + 'a \<Rightarrow> ('a \<Rightarrow> error + 'b) \<Rightarrow> error + 'b" where
  "bind_err m f = (case m of Inl e \<Rightarrow> Inl e | Inr x \<Rightarrow> f x)"

fun collect :: "(error + 'a) list \<Rightarrow> error + 'a list" where
  "collect [] = Inr []"
| "collect (Inl e # ms) = Inl e"
| "collect (Inr x # ms) = bind_err (collect ms) (\<lambda>xs. Inr (x # xs))"

text \<open>Truthiness of \<^verbatim>\<open>Optional[str]\<close>, \<^verbatim>\<open>Optional[List]\<close> and \<^verbatim>\<open>Optional[int]\<close> arguments.\<close>

definition truthy_str :: "string option \<Rightarrow> bool" where
  "truthy_str s = (case s of None \<Rightarrow> False | Some t \<Rightarrow> t \<noteq> [])"

definition truthy_list :: "'a list option \<Rightarrow> bool" where
  "truthy_list l = (case l of None \<Rightarrow> False | Some xs \<Rightarrow> xs \<noteq> [])"

definition truthy_int :: "int option \<Rightarrow> bool" where
  "truthy_int i = (case i of None \<Rightarrow> False | Some k \<Rightarrow> k \<noteq> 0)"

text \<open>\<^verbatim>\<open>range(a, b)\<close>, true division, \<^verbatim>\<open>int(x)\<close> on a float, \<^verbatim>\<open>str(v)\<close> and \<^verbatim>\<open>v1 < v2\<close>.\<close>

definition py_range :: "int \<Rightarrow> int \<Rightarrow> int list" where
  "py_range a b = map (\<lambda>k. a + int k) [0..<nat (b - a)]"

definition py_truediv :: "int \<Rightarrow> int \<Rightarrow> error + rat" where
  "py_truediv a b = (if b = 0 then Inl ZeroDivisionError else Inr (of_int a / of_int b))"

definition py_int :: "rat \<Rightarrow> int" where
  "py_int x = (if 0 \<le> x then \<lfloor>x\<rfloor> else \<lceil>x\<rceil>)"

definition digit_char :: "nat \<Rightarrow> char" where
  "digit_char d = ''0123456789abcdef'' ! (d mod 16)"

fun hex_nat :: "nat \<Rightarrow> string" where
  "hex_nat n = (if n < 16 then [digit_char n] else hex_nat (n div 16) @ [digit_char (n mod 16)])"

fun dec_nat :: "nat \<Rightarrow> string" where
  "dec_nat n = (if n < 10 then [digit_char n] else dec_nat (n div 10) @ [digit_char (n mod 10)])"

declare hex_nat.simps [simp del] dec_nat.simps [simp del]

definition fmt_02x :: "int \<Rightarrow> string" where
  \<comment> \<open>\<^verbatim>\<open>'%02x' % k\<close>: the sign counts towards the width of two.\<close>
  "fmt_02x k =
     (if 0 \<le> k then replicate (2 - length (hex_nat (nat k))) CHR ''0'' @ hex_nat (nat k)
      else CHR ''-'' # hex_nat (nat (- k)))"



section \<open>DataFrames and dictionaries\<close>

type_synonym dataframe = "(string \<times> cell list) list"

definition columns :: "dataframe \<Rightarrow> string list" where
  "columns df = map fst df"

definition column_at :: "dataframe \<Rightarrow> nat \<Rightarrow> error + string" where
  \<comment> \<open>\<^verbatim>\<open>df.columns[k]\<close>\<close>
  "column_at df k = (if k < length df then Inr (columns df ! k) else Inl IndexError)"

definition tolist :: "dataframe \<Rightarrow> string \<Rightarrow> error + cell list" where
  \<comment> \<open>\<^verbatim>\<open>df[name].tolist()\<close>\<close>
  "tolist df name = (case map_of df name of None \<Rightarrow> Inl KeyError | Some cells \<Rightarrow> Inr cells)"

definition column_not_found :: "string \<Rightarrow> error" where
  "column_not_found name =
     ValueError (''Column '' @ [CHR 0x27] @ name @ [CHR 0x27] @ '' not found in DataFrame.'')"

definition require_col :: "dataframe \<Rightarrow> string option \<Rightarrow> error + unit" where
  \<comment> \<open>\<^verbatim>\<open>if col and col not in df.columns: raise ValueError(...)\<close>\<close>
  "require_col df col = (case col of None \<Rightarrow> Inr ()
     | Some name \<Rightarrow> if name \<noteq> [] \<and> name \<notin> set (columns df)
                    then Inl (column_not_found name) else Inr ())"

definition col_or_default :: "dataframe \<Rightarrow> string option \<Rightarrow> nat \<Rightarrow> error + string" where
  \<comment> \<open>\<^verbatim>\<open>col or df.columns[k]\<close>\<close>
  "col_or_default df col k = (if truthy_str col then Inr (the col) else column_at df k)"

definition dict_of_zip :: "'k list \<Rightarrow> 'v list \<Rightarrow> ('k \<times> 'v) list" where
  \<comment> \<open>\<^verbatim>\<open>dict(zip(keys, values))\<close>: a repeated key keeps its first position and takes the last value.\<close>
  "dict_of_zip ks vs = foldl (\<lambda>d (k, v). AList.update k v d) [] (zip ks vs)"

section \<open>Gradient colours, section bounds and midpoints\<close>

type_synonym rgb = "rat \<times> rat \<times> rat"

definition hex_color :: "rgb \<Rightarrow> string" where
  \<comment> \<open>\<^verbatim>\<open>'#%02x%02x%02x' % (int(r * 255), int(g * 255), int(b * 255))\<close>\<close>
  "hex_color c = (case c of (r, g, b) \<Rightarrow>
     CHR ''#'' # fmt_02x (py_int (r * 255)) @ fmt_02x (py_int (g * 255)) @ fmt_02x (py_int (b * 255)))"

definition invalid_color :: error where
  "invalid_color = ValueError ''Invalid RGBA argument''"

definition mcolors_to_rgb :: "(string \<Rightarrow> rgb option) \<Rightarrow> string \<Rightarrow> error + rgb" where
  \<comment> \<open>\<open>to_rgb\<close> stands for matplotlib's colour table, \<open>None\<close> where \<^verbatim>\<open>mcolors.to_rgb\<close> raises.\<close>
  "mcolors_to_rgb to_rgb c = (case to_rgb c of None \<Rightarrow> Inl invalid_color | Some v \<Rightarrow> Inr v)"

definition blend :: "rgb \<Rightarrow> rgb \<Rightarrow> rat \<Rightarrow> rgb" where
  \<comment> \<open>\<^verbatim>\<open>tuple(start_rgb[i] + (end_rgb[i] - start_rgb[i]) * t for i in range(3))\<close>\<close>
  "blend start_rgb end_rgb t = (case (start_rgb, end_rgb) of ((sr, sg, sb), (er, eg, eb)) \<Rightarrow>
     (sr + (er - sr) * t, sg + (eg - sg) * t, sb + (eb - sb) * t))"

definition get_color_gradient ::
  "(string \<Rightarrow> rgb option) \<Rightarrow> string \<Rightarrow> string \<Rightarrow> int \<Rightarrow> error + string list" where
  "get_color_gradient to_rgb start_color end_color num_colors =
     bind_err (mcolors_to_rgb to_rgb start_color) (\<lambda>start_rgb.
     bind_err (mcolors_to_rgb to_rgb end_color) (\<lambda>end_rgb.
     bind_err (collect (map (\<lambda>i. py_truediv i (num_colors - 1)) (py_range 0 num_colors))) (\<lambda>ts.
     Inr (map (\<lambda>t. hex_color (blend start_rgb end_rgb t)) ts))))"

definition get_section_bounds :: "rat \<Rightarrow> int \<Rightarrow> error + (rat \<times> rat) list" where
  "get_section_bounds x y =
     (if y = 0 then Inl ZeroDivisionError
      else let section_length = x / of_int y
           in Inr (map (\<lambda>i. (of_int i * section_length, (of_int i + 1) * section_length))
                    (py_range 0 y)))"

definition find_midpoints :: "int \<Rightarrow> int \<Rightarrow> rat list" where
  \<comment> \<open>The divisor \<open>2 * y\<close> is only evaluated for \<open>i\<close> in \<^verbatim>\<open>range(1, y + 1)\<close>, where \<open>y \<ge> 1\<close>.\<close>
  "find_midpoints x y = map (\<lambda>i. of_int ((2 * i - 1) * x) / of_int (2 * y)) (py_range 1 (y + 1))"

section \<open>Figures\<close>

text \<open>
  A \<^verbatim>\<open>go.Figure\<close> is the list of its traces, its annotations and its layout. Each record
  keeps the arguments the module passes; \<open>lay_axes_hidden\<close> stands for the waffle chart's
  fixed axis settings (no tick labels, grid or zero line, \<^verbatim>\<open>yaxis_scaleanchor="x"\<close>),
  and the colour bar's fixed thickness and outline are not carried.
\<close>

record waterfall_trace =
  wf_orientation :: string
  wf_measure :: "string list"
  wf_textposition :: string
  wf_y :: "cell list"
  wf_x :: "cell list"
  wf_connector :: string
  wf_decreasing :: string
  wf_increasing :: string
  wf_totals :: string
  wf_text :: "string list option"

record heatmap_trace =
  hm_z :: "nat option list list"
  hm_xgap :: int
  hm_ygap :: int
  hm_tickvals :: "rat list"
  hm_ticktext :: "cell list"
  hm_colorscale :: "(rat \<times> string) list"
  hm_autocolorscale :: bool

record scatter_trace =
  sc_x :: "cell list"
  sc_y :: "cell list"
  sc_mode :: string
  sc_line :: "(string \<times> int) option"
  sc_marker :: "(string \<times> int) option"
  sc_name :: "string option"
  sc_showlegend :: bool

datatype trace = Waterfall waterfall_trace | Heatmap heatmap_trace | Scatter scatter_trace

record annotation =
  an_x :: cell
  an_y :: cell
  an_text :: string
  an_showarrow :: bool
  an_font_color :: string
  an_xanchor :: string
  an_yanchor :: string
  an_xshift :: "int option"
  an_yshift :: "int option"

record layout =
  lay_title :: string
  lay_xaxis_title :: "string option"
  lay_yaxis_title :: "string option"
  lay_template :: "string option"
  lay_height :: "int option"
  lay_axes_hidden :: bool

record figure =
  fig_data :: "trace list"
  fig_annotations :: "annotation list"
  fig_layout :: layout

section \<open>waterfall\<close>

definition missing_labels_data :: error where
  "missing_labels_data = ValueError ''Provide either a DataFrame or labels and data lists.''"

definition waterfall_data ::
  "dataframe option \<Rightarrow> string option \<Rightarrow> string option \<Rightarrow> cell list option \<Rightarrow> cell list option
     \<Rightarrow> error + (cell list \<times> cell list)" where
  \<comment> \<open>The \<^verbatim>\<open>if df is not None: ... elif not (labels and data): raise\<close> block: the labels and data used.\<close>
  "waterfall_data df category_col value_col labels data =
     (case df of
        Some d \<Rightarrow>
          bind_err (require_col d category_col) (\<lambda>_.
          bind_err (require_col d value_col) (\<lambda>_.
          bind_err (col_or_default d category_col 0) (\<lambda>category_col.
          bind_err (col_or_default d value_col 1) (\<lambda>value_col.
          bind_err (tolist d category_col) (\<lambda>labels.
          bind_err (tolist d value_col) (\<lambda>data.
          Inr (labels, data)))))))
      | None \<Rightarrow>
          if \<not> (truthy_list labels \<and> truthy_list data) then Inl missing_labels_data
          else Inr (the labels, the data))"

definition waterfall ::
  "dataframe option \<Rightarrow> string option \<Rightarrow> string option \<Rightarrow> cell list option \<Rightarrow> cell list option
     \<Rightarrow> string \<Rightarrow> string list option \<Rightarrow> string \<Rightarrow> string \<Rightarrow> string \<Rightarrow> string
     \<Rightarrow> string option \<Rightarrow> string list option \<Rightarrow> error + figure" where
  "waterfall df category_col value_col labels data title annotation icolor dcolor tcolor ccolor
       color measure_arg =
     bind_err (waterfall_data df category_col value_col labels data) (\<lambda>(labels, data).
       let measure_used = (case measure_arg of
                        None \<Rightarrow> replicate (nat (int (length labels) - 1)) ''relative'' @ [''total'']
                      | Some m \<Rightarrow> m);
           icolor = (if truthy_str color then the color else icolor);
           dcolor = (if truthy_str color then the color else dcolor);
           tcolor = (if truthy_str color then the color else tcolor);
           ccolor = (if truthy_str color then the color else ccolor);
           waterfall_params = \<lparr>wf_orientation = ''v'', wf_measure = measure_used,
             wf_textposition = ''outside'', wf_y = data, wf_x = labels, wf_connector = ccolor,
             wf_decreasing = dcolor, wf_increasing = icolor, wf_totals = tcolor,
             wf_text = annotation\<rparr>
       in Inr \<lparr>fig_data = [Waterfall waterfall_params], fig_annotations = [],
                fig_layout = \<lparr>lay_title = title, lay_xaxis_title = None, lay_yaxis_title = None,
                  lay_template = None, lay_height = None, lay_axes_hidden = False\<rparr>\<rparr>)"

section \<open>waffle\<close>

definition missing_data_dict :: error where
  "missing_data_dict = ValueError ''Provide either a DataFrame or a data dictionary.''"

definition waffle_data ::
  "dataframe option \<Rightarrow> string option \<Rightarrow> string option \<Rightarrow> (cell \<times> cell) list option
     \<Rightarrow> error + (cell \<times> cell) list" where
  \<comment> \<open>The \<^verbatim>\<open>if df is not None: ... elif data is None: raise\<close> block: the dictionary used.\<close>
  "waffle_data df category_col value_col data =
     (case df of
        Some d \<Rightarrow>
          bind_err (require_col d category_col) (\<lambda>_.
          bind_err (require_col d value_col) (\<lambda>_.
          bind_err (col_or_default d category_col 0) (\<lambda>category_col.
          bind_err (col_or_default d value_col 1) (\<lambda>value_col.
          bind_err (tolist d category_col) (\<lambda>keys.
          bind_err (tolist d value_col) (\<lambda>vals.
          Inr (dict_of_zip keys vals)))))))
      | None \<Rightarrow> (case data of None \<Rightarrow> Inl missing_data_dict | Some d \<Rightarrow> Inr d))"

fun int_values :: "cell list \<Rightarrow> error + int list" where
  \<comment> \<open>\<^verbatim>\<open>sum(data.values())\<close> raises \<^verbatim>\<open>TypeError\<close> on a string value; otherwise the counts are ints.\<close>
  "int_values [] = Inr []"
| "int_values (Num k # cs) = bind_err (int_values cs) (\<lambda>ks. Inr (k # ks))"
| "int_values (Str s # cs) = Inl TypeError"

definition cat_indices :: "int list \<Rightarrow> nat list" where
  \<comment> \<open>\<^verbatim>\<open>[idx for idx, count in enumerate(data.values()) for _ in range(count)]\<close>\<close>
  "cat_indices counts =
     concat (map (\<lambda>(idx, count). replicate (nat count) idx) (enumerate 0 counts))"

definition ceil_sqrt :: "int \<Rightarrow> error + int" where
  \<comment> \<open>\<^verbatim>\<open>math.ceil(math.sqrt(total))\<close>: the least \<open>k\<close> with \<open>total_count \<le> k * k\<close>.\<close>
  "ceil_sqrt total_count =
     (if total_count < 0 then Inl (ValueError ''math domain error'')
      else Inr (int (length (takeWhile (\<lambda>k. int (k * k) < total_count) [0..<Suc (nat total_count)]))))"

definition waffle_width :: "int option \<Rightarrow> int \<Rightarrow> error + int" where
  \<comment> \<open>\<^verbatim>\<open>grid_width or math.ceil(math.sqrt(total))\<close>\<close>
  "waffle_width grid_width total_count =
     (if truthy_int grid_width then Inr (the grid_width) else ceil_sqrt total_count)"

definition waffle_height :: "int \<Rightarrow> int \<Rightarrow> error + int" where
  \<comment> \<open>\<^verbatim>\<open>math.ceil(total / width)\<close>\<close>
  "waffle_height total_count width =
     (if width = 0 then Inl ZeroDivisionError
      else Inr \<lceil>rat_of_int total_count / rat_of_int width\<rceil>)"

fun rows_of :: "nat \<Rightarrow> nat \<Rightarrow> 'a list \<Rightarrow> 'a list list" where
  "rows_of 0 w xs = []"
| "rows_of (Suc h) w xs = take w xs # rows_of h w (drop w xs)"

definition reshape :: "'a list \<Rightarrow> int \<Rightarrow> error + 'a list list" where
  \<comment> \<open>\<^verbatim>\<open>np.array(xs).reshape((-1, width))\<close>: numpy takes a negative width for a second unknown
      dimension and refuses it, refuses width 0, and refuses a size that width does not divide.\<close>
  "reshape xs width =
     (if width \<le> 0 \<or> int (length xs) mod width \<noteq> 0 then Inl (ValueError ''cannot reshape array'')
      else Inr (rows_of (length xs div nat width) (nat width) xs))"

definition fliplr :: "'a list list \<Rightarrow> 'a list list" where
  "fliplr b = map rev b"

fun colorscale_loop :: "(rat \<times> rat) list \<Rightarrow> string list \<Rightarrow> nat list \<Rightarrow> error + (rat \<times> string) list" where
  \<comment> \<open>The \<^verbatim>\<open>for i in range(number_of_values)\<close> loop appending two breakpoints per section.\<close>
  "colorscale_loop ranges local_colors [] = Inr []"
| "colorscale_loop ranges local_colors (i # rest) =
     (if length ranges \<le> i then Inl IndexError
      else if local_colors = [] then Inl ZeroDivisionError
      else bind_err (colorscale_loop ranges local_colors rest) (\<lambda>colorscale.
             Inr ((fst (ranges ! i), local_colors ! (i mod length local_colors))
                # (snd (ranges ! i), local_colors ! (i mod length local_colors))
                # colorscale)))"

definition waffle_colors ::
  "(string \<Rightarrow> rgb option) \<Rightarrow> string list option \<Rightarrow> string \<Rightarrow> string \<Rightarrow> int
     \<Rightarrow> error + string list" where
  \<comment> \<open>\<^verbatim>\<open>if local_colors is None: local_colors = get_color_gradient(startcolor, endcolor, len(data))\<close>\<close>
  "waffle_colors to_rgb local_colors startcolor endcolor n =
     (case local_colors of
        None \<Rightarrow> get_color_gradient to_rgb startcolor endcolor n
      | Some cs \<Rightarrow> Inr cs)"

definition waffle ::
  "(string \<Rightarrow> rgb option) \<Rightarrow> dataframe option \<Rightarrow> string option \<Rightarrow> string option
     \<Rightarrow> (cell \<times> cell) list option \<Rightarrow> string \<Rightarrow> string list option \<Rightarrow> string \<Rightarrow> string
     \<Rightarrow> int \<Rightarrow> int \<Rightarrow> int option \<Rightarrow> error + figure" where
  "waffle to_rgb df category_col value_col data title local_colors startcolor endcolor
       fig_height tile_gap grid_width =
     bind_err (waffle_data df category_col value_col data) (\<lambda>data.
     bind_err (waffle_colors to_rgb local_colors startcolor endcolor (int (length data)))
       (\<lambda>local_colors.
     bind_err (int_values (map snd data)) (\<lambda>counts.
     let total_count = sum_list counts;
         number_of_values = length data;
         cat = cat_indices counts
     in
     bind_err (waffle_width grid_width total_count) (\<lambda>width.
     bind_err (waffle_height total_count width) (\<lambda>height.
     let padding_length = width * height - int (length cat);
         padded = replicate (nat padding_length) None @ map Some cat
     in
     bind_err (reshape padded width) (\<lambda>b.
     bind_err (get_section_bounds 1 (int number_of_values)) (\<lambda>ranges.
     bind_err (colorscale_loop ranges local_colors [0..<number_of_values]) (\<lambda>colorscale.
     Inr \<lparr>fig_data = [Heatmap \<lparr>hm_z = fliplr b, hm_xgap = tile_gap, hm_ygap = tile_gap,
              hm_tickvals = find_midpoints (int number_of_values - 1) (int number_of_values),
              hm_ticktext = map fst data, hm_colorscale = colorscale,
              hm_autocolorscale = False\<rparr>],
           fig_annotations = [],
           fig_layout = \<lparr>lay_title = title, lay_xaxis_title = None, lay_yaxis_title = None,
             lay_template = None, lay_height = Some fig_height,
             lay_axes_hidden = True\<rparr>\<rparr>))))))))"

definition waffle_heatmap :: "error + figure \<Rightarrow> heatmap_trace option" where
  \<comment> \<open>The heatmap trace of the figure a call returned; \<open>None\<close> when the call raised.\<close>
  "waffle_heatmap r = (case r of Inl e \<Rightarrow> None
     | Inr fig \<Rightarrow> (case fig_data fig of [Heatmap t] \<Rightarrow> Some t | _ \<Rightarrow> None))"

definition named_colors :: "string \<Rightarrow> rgb option" where
  \<comment> \<open>Four entries of matplotlib's table of CSS colour names, for evaluating concrete calls.\<close>
  "named_colors c =
     (if c = ''lightblue'' then Some (173 / 255, 216 / 255, 230 / 255)
      else if c = ''darkblue'' then Some (0, 0, 139 / 255)
      else if c = ''red'' then Some (1, 0, 0)
      else if c = ''blue'' then Some (0, 0, 1)
      else None)"

section \<open>dumbbell and line_range\<close>










section \<open>The specification's reading of the tick positions\<close>

definition unit_band_midpoints :: "nat \<Rightarrow> rat list" where
  \<comment> \<open>The specification's words: the midpoints of the \<open>n\<close> equal bands of \<open>[0, 1]\<close>.\<close>
  "unit_band_midpoints n = map (\<lambda>i. (2 * rat_of_nat i + 1) / (2 * rat_of_nat n)) [0..<n]"

section \<open>Basic facts\<close>

lemma bind_err_simps [simp]:
  "bind_err (Inl e) f = Inl e"
  "bind_err (Inr x) f = f x"
  by (simp_all add: bind_err_def)

lemma bind_err_eq_Inr: "bind_err m f = Inr y \<longleftrightarrow> (\<exists>x. m = Inr x \<and> f x = Inr y)"
  by (cases m) simp_all

lemma py_range_0 [simp]: "py_range 0 (int n) = map int [0..<n]"
  by (simp add: py_range_def)

lemma py_range_1: "py_range 1 (int n + 1) = map (\<lambda>k. 1 + int k) [0..<n]"
  by (simp add: py_range_def)

lemma find_midpoints_eq:
  "find_midpoints (int n - 1) (int n) =
     map (\<lambda>k. (2 * rat_of_nat k + 1) * (rat_of_nat n - 1) / (2 * rat_of_nat n)) [0..<n]"
  unfolding find_midpoints_def py_range_1 by simp

lemma get_section_bounds_nat:
  "0 < n \<Longrightarrow> get_section_bounds x (int n) =
     Inr (map (\<lambda>k. (rat_of_nat k * (x / rat_of_nat n), (rat_of_nat k + 1) * (x / rat_of_nat n))) [0..<n])"
  by (simp add: get_section_bounds_def Let_def comp_def)

lemma get_section_bounds_0 [simp]: "get_section_bounds x 0 = Inl ZeroDivisionError"
  by (simp add: get_section_bounds_def)

lemma waffle_Inr_iff:
  "waffle to_rgb df category_col value_col data title local_colors startcolor endcolor
       fig_height tile_gap grid_width = Inr fig \<longleftrightarrow>
   (\<exists>d cs counts w h b ranges colorscale.
      waffle_data df category_col value_col data = Inr d \<and>
      waffle_colors to_rgb local_colors startcolor endcolor (int (length d)) = Inr cs \<and>
      int_values (map snd d) = Inr counts \<and>
      waffle_width grid_width (sum_list counts) = Inr w \<and>
      waffle_height (sum_list counts) w = Inr h \<and>
      reshape (replicate (nat (w * h - int (length (cat_indices counts)))) None
                 @ map Some (cat_indices counts)) w = Inr b \<and>
      get_section_bounds 1 (int (length d)) = Inr ranges \<and>
      colorscale_loop ranges cs [0..<length d] = Inr colorscale \<and>
      fig = \<lparr>fig_data = [Heatmap \<lparr>hm_z = fliplr b, hm_xgap = tile_gap, hm_ygap = tile_gap,
              hm_tickvals = find_midpoints (int (length d) - 1) (int (length d)),
              hm_ticktext = map fst d, hm_colorscale = colorscale,
              hm_autocolorscale = False\<rparr>],
           fig_annotations = [],
           fig_layout = \<lparr>lay_title = title, lay_xaxis_title = None, lay_yaxis_title = None,
             lay_template = None, lay_height = Some fig_height,
             lay_axes_hidden = True\<rparr>\<rparr>)"
  unfolding waffle_def Let_def bind_err_eq_Inr by blast

lemma waffle_heatmap_Some:
  "waffle_heatmap r = Some t \<longleftrightarrow> (\<exists>fig. r = Inr fig \<and> fig_data fig = [Heatmap t])"
  by (auto simp: waffle_heatmap_def split: sum.splits list.splits trace.splits)

lemma waffle_ticks:
  assumes "waffle_heatmap (waffle to_rgb df category_col value_col data title local_colors
             startcolor endcolor fig_height tile_gap grid_width) = Some t"
      and "waffle_data df category_col value_col data = Inr d"
  shows "d \<noteq> [] \<and> hm_tickvals t = find_midpoints (int (length d) - 1) (int (length d))"
  using assms unfolding waffle_heatmap_Some waffle_Inr_iff by auto

lemma band_midpoint:
  "(rat_of_nat k * (x / rat_of_nat n) + (rat_of_nat k + 1) * (x / rat_of_nat n)) / 2
     = (2 * rat_of_nat k + 1) * x / (2 * rat_of_nat n)"
  by (cases "n = 0") (simp_all add: field_simps)

lemma tick_bounds:
  assumes "k < n" "2 \<le> n"
  shows "0 < (2 * rat_of_nat k + 1) * (rat_of_nat n - 1) / (2 * rat_of_nat n)"
    and "(2 * rat_of_nat k + 1) * (rat_of_nat n - 1) / (2 * rat_of_nat n) < rat_of_nat n - 1"
proof -
  have n1: "0 < rat_of_nat n - 1" using assms by simp
  have n0: "0 < 2 * rat_of_nat n" using assms by simp
  have k0: "0 < 2 * rat_of_nat k + 1" by (simp add: add_pos_nonneg)
  show "0 < (2 * rat_of_nat k + 1) * (rat_of_nat n - 1) / (2 * rat_of_nat n)"
    using n1 n0 k0 by simp
  have "2 * rat_of_nat k + 1 < 2 * rat_of_nat n"
  proof -
    have "2 * k + 1 < 2 * n" using assms by simp
    then have "rat_of_nat (2 * k + 1) < rat_of_nat (2 * n)" by (simp only: of_nat_less_iff)
    then show ?thesis by simp
  qed
  then have "(2 * rat_of_nat k + 1) * (rat_of_nat n - 1) < 2 * rat_of_nat n * (rat_of_nat n - 1)"
    using n1 by (simp only: mult_strict_right_mono)
  then show "(2 * rat_of_nat k + 1) * (rat_of_nat n - 1) / (2 * rat_of_nat n) < rat_of_nat n - 1"
    using n0 by (simp add: divide_less_eq mult.commute)
qed

lemma tick_mono:
  assumes "i < j" "2 \<le> n"
  shows "(2 * rat_of_nat i + 1) * (rat_of_nat n - 1) / (2 * rat_of_nat n)
       < (2 * rat_of_nat j + 1) * (rat_of_nat n - 1) / (2 * rat_of_nat n)"
proof -
  have n1: "0 < rat_of_nat n - 1" using assms by simp
  have n0: "0 < 2 * rat_of_nat n" using assms by simp
  have "2 * rat_of_nat i + 1 < 2 * rat_of_nat j + 1" using assms by simp
  then have "(2 * rat_of_nat i + 1) * (rat_of_nat n - 1) < (2 * rat_of_nat j + 1) * (rat_of_nat n - 1)"
    using n1 by (simp only: mult_strict_right_mono)
  then show ?thesis using n0 by (simp only: divide_strict_right_mono)
qed

section \<open>Facts about the grid layout\<close>

lemma int_values_Num [simp]: "int_values (map Num ks) = Inr ks"
  by (induction ks) simp_all









lemma enumerate_blocks_sorted:
  "sorted (concat (map (\<lambda>(idx, count). replicate (nat count) idx) (enumerate n ks)))
   \<and> (\<forall>x \<in> set (concat (map (\<lambda>(idx, count). replicate (nat count) idx) (enumerate n ks))).
         n \<le> x \<and> x < n + length ks)"
proof (induction ks arbitrary: n)
  case Nil
  show ?case by simp
next
  case (Cons k ks)
  from Cons.IH [of "Suc n"] show ?case
    by (auto simp: sorted_append sorted_replicate)
qed

lemma sorted_cat_indices: "sorted (cat_indices ks)"
  using enumerate_blocks_sorted [of 0 ks] by (simp add: cat_indices_def)


lemma length_rows_of [simp]: "length (rows_of h w xs) = h"
  by (induction h arbitrary: xs) simp_all














lemma ceil_sqrt_least:
  assumes "0 \<le> T"
  shows "\<exists>m. ceil_sqrt T = Inr (int m) \<and> T \<le> int (m * m) \<and> (\<forall>k<m. int (k * k) < T)"
proof -
  define P where "P = (\<lambda>k. int (k * k) < T)"
  define m where "m = (LEAST k. \<not> P k)"
  have "int (nat T) \<le> int (nat T * nat T)" using le_square [of "nat T"] by linarith
  then have nP: "\<not> P (nat T)" using assms unfolding P_def by simp
  have m1: "\<not> P m" unfolding m_def using nP by (rule LeastI)
  have m2: "\<And>k. k < m \<Longrightarrow> P k" unfolding m_def using not_less_Least by blast
  have m3: "m \<le> nat T" unfolding m_def using nP by (rule Least_le)
  have "takeWhile P [0..<Suc (nat T)] = take m [0..<Suc (nat T)]"
    by (rule takeWhile_eq_take_P_nth) (use m1 m2 m3 in \<open>auto simp: nth_upt simp del: upt_Suc\<close>)
  then have "length (takeWhile P [0..<Suc (nat T)]) = m" using m3 by simp
  then have "ceil_sqrt T = Inr (int m)" using assms by (simp add: ceil_sqrt_def P_def)
  moreover have "T \<le> int (m * m)" using m1 by (simp add: P_def)
  moreover have "\<forall>k<m. int (k * k) < T" using m2 by (simp add: P_def)
  ultimately show ?thesis by blast
qed

lemma ceil_sqrt_real:
  assumes "0 \<le> T"
  shows "ceil_sqrt T = Inr \<lceil>sqrt (real_of_int T)\<rceil>"
proof -
  obtain m where m: "ceil_sqrt T = Inr (int m)" "T \<le> int (m * m)" "\<forall>k<m. int (k * k) < T"
    using ceil_sqrt_least [OF assms] by blast
  have up: "sqrt (real_of_int T) \<le> real m"
  proof (rule real_le_lsqrt)
    show "real_of_int T \<le> (real m)\<^sup>2"
      using m(2) by (simp add: power2_eq_square) (metis of_int_le_iff of_int_of_nat_eq of_nat_mult)
  qed (use assms in auto)
  have lo: "real m - 1 < sqrt (real_of_int T)"
  proof (cases m)
    case 0
    then show ?thesis using assms by (simp add: less_le_trans [of _ 0])
  next
    case (Suc k)
    then have "int (k * k) < T" using m(3) by simp
    then have "(real k)\<^sup>2 < real_of_int T"
      by (simp add: power2_eq_square) (metis of_int_less_iff of_int_of_nat_eq of_nat_mult)
    then have "real k < sqrt (real_of_int T)" by (rule real_less_rsqrt)
    then show ?thesis using Suc by simp
  qed
  have "\<lceil>sqrt (real_of_int T)\<rceil> = int m"
    by (rule ceiling_unique) (use up lo in auto)
  then show ?thesis using m(1) by simp
qed

lemma ceil_sqrt_pos: "0 < T \<Longrightarrow> \<exists>w. ceil_sqrt T = Inr w \<and> 0 < w"
proof -
  assume T: "0 < T"
  then obtain m where m: "ceil_sqrt T = Inr (int m)" "T \<le> int (m * m)"
    using ceil_sqrt_least [of T] by auto
  have "m \<noteq> 0" using m(2) T by (cases m) auto
  then show ?thesis using m(1) by simp
qed







lemma get_color_gradient_one:
  assumes "to_rgb start_color \<noteq> None" "to_rgb end_color \<noteq> None"
  shows "get_color_gradient to_rgb start_color end_color 1 = Inl ZeroDivisionError"
  using assms
  by (auto simp: get_color_gradient_def mcolors_to_rgb_def py_range_def py_truediv_def)

lemma get_color_gradient_one_isl:
  "\<exists>e. get_color_gradient to_rgb start_color end_color 1 = Inl e"
  by (auto simp: get_color_gradient_def mcolors_to_rgb_def py_range_def py_truediv_def
      split: option.splits)

lemma ceil_sqrt_0 [simp]: "ceil_sqrt 0 = Inr 0"
  by (simp add: ceil_sqrt_def)

lemma waffle_width_falsy: "\<not> truthy_int grid_width \<Longrightarrow> waffle_width grid_width T = ceil_sqrt T"
  by (simp add: waffle_width_def)

lemma waffle_zero_width_same:
  "waffle to_rgb df category_col value_col data title local_colors startcolor endcolor
     fig_height tile_gap (Some 0)
   = waffle to_rgb df category_col value_col data title local_colors startcolor endcolor
     fig_height tile_gap None"
  by (simp add: waffle_def waffle_width_def truthy_int_def)

lemma waffle_negative_width:
  assumes "g < 0"
  shows "isl (waffle to_rgb df category_col value_col data title local_colors startcolor endcolor
     fig_height tile_gap (Some g))"
proof -
  have w: "waffle_width (Some g) T = Inr g" for T
    using assms by (simp add: waffle_width_def truthy_int_def)
  have h: "\<exists>h. waffle_height T g = Inr h" for T
    using assms by (simp add: waffle_height_def)
  have r: "reshape xs g = Inl (ValueError ''cannot reshape array'')" for xs :: "nat option list"
    using assms by (simp add: reshape_def)
  show ?thesis
    unfolding waffle_def Let_def
    by (auto simp: bind_err_def w r waffle_height_def assms split: sum.splits)
qed

lemma waffle_zero_total:
  assumes "waffle_data df category_col value_col data = Inr d"
    and "map snd d = map Num counts" and "sum_list counts = 0"
    and "\<not> truthy_int grid_width"
  shows "isl (waffle to_rgb df category_col value_col data title local_colors startcolor endcolor
     fig_height tile_gap grid_width)"
  unfolding waffle_def Let_def
  by (auto simp: bind_err_def assms waffle_width_falsy waffle_height_def split: sum.splits)

lemma waffle_empty_counts:
  assumes "waffle_data df category_col value_col data = Inr []"
  shows "isl (waffle to_rgb df category_col value_col data title local_colors startcolor endcolor
     fig_height tile_gap grid_width)"
  unfolding waffle_def Let_def
  by (auto simp: bind_err_def assms split: sum.splits)

lemma waffle_layout_errors:
  assumes "waffle_data df category_col value_col data = Inr d"
    and "waffle_colors to_rgb local_colors startcolor endcolor (int (length d)) = Inr cs"
    and "map snd d = map Num counts"
  shows "d = [] \<Longrightarrow> grid_width = None \<or> (\<exists>g. grid_width = Some g \<and> 0 \<le> g) \<Longrightarrow>
           waffle to_rgb df category_col value_col data title local_colors startcolor endcolor
             fig_height tile_gap grid_width = Inl ZeroDivisionError"
    and "sum_list counts = 0 \<Longrightarrow> \<not> truthy_int grid_width \<Longrightarrow>
           waffle to_rgb df category_col value_col data title local_colors startcolor endcolor
             fig_height tile_gap grid_width = Inl ZeroDivisionError"
    and "grid_width = Some g \<Longrightarrow> g < 0 \<Longrightarrow>
           waffle to_rgb df category_col value_col data title local_colors startcolor endcolor
             fig_height tile_gap grid_width = Inl (ValueError ''cannot reshape array'')"
proof -
  show "waffle to_rgb df category_col value_col data title local_colors startcolor endcolor
             fig_height tile_gap grid_width = Inl ZeroDivisionError"
    if "d = []" "grid_width = None \<or> (\<exists>g. grid_width = Some g \<and> 0 \<le> g)"
  proof -
    have c: "counts = []" using assms(3) that(1) by simp
    show ?thesis
      using that assms(1,2)
      by (auto simp: waffle_def Let_def c waffle_width_def truthy_int_def waffle_height_def
          cat_indices_def reshape_def)
  qed
  show "waffle to_rgb df category_col value_col data title local_colors startcolor endcolor
             fig_height tile_gap grid_width = Inl ZeroDivisionError"
    if "sum_list counts = 0" "\<not> truthy_int grid_width"
    using that assms by (simp add: waffle_def Let_def waffle_width_falsy waffle_height_def)
  show "waffle to_rgb df category_col value_col data title local_colors startcolor endcolor
             fig_height tile_gap grid_width = Inl (ValueError ''cannot reshape array'')"
    if "grid_width = Some g" "g < 0"
    using that assms
    by (simp add: waffle_def Let_def waffle_width_def truthy_int_def waffle_height_def reshape_def)
qed

section \<open>Facts about waterfall and dumbbell\<close>

lemma waterfall_data_lists:
  "ls \<noteq> [] \<Longrightarrow> ds \<noteq> [] \<Longrightarrow>
     waterfall_data None category_col value_col (Some ls) (Some ds) = Inr (ls, ds)"
  by (simp add: waterfall_data_def truthy_list_def)










section \<open>Claim C1: padding, reshaping and mirroring of the grid\<close>



section \<open>Claim C2: every category gets its count of cells\<close>



section \<open>Claim C3: the colour-bar tick positions\<close>

text \<open>
  C3 as stated fails: \<^verbatim>\<open>waffle\<close> calls \<^verbatim>\<open>find_midpoints(number_of_values - 1, number_of_values)\<close>,
  so the ticks are midpoints of the bands of \<open>[0, n - 1]\<close>, the range of the category indices
  in the grid, and not of \<open>[0, 1]\<close>. With three categories the ticks are \<open>1/3, 1, 5/3\<close>,
  where the midpoints of the bands of \<open>[0, 1]\<close> are \<open>1/6, 1/2, 5/6\<close>.
\<close>

theorem waffle_ticks_counterexample:
  "map_option hm_tickvals (waffle_heatmap (waffle named_colors None None None
        (Some [(Str ''A'', Num 1), (Str ''B'', Num 2), (Str ''C'', Num 3)]) [] None
        ''lightblue'' ''darkblue'' 600 2 None)) = Some [1 / 3, 1, 5 / 3]
     \<and> unit_band_midpoints 3 = [1 / 6, 1 / 2, 5 / 6]"
  by code_simp

text \<open>
  C3 (amended): whenever \<^verbatim>\<open>waffle\<close> returns a chart for \<open>n\<close> categories, \<open>n \<ge> 1\<close> and the
  \<open>n\<close> tick positions are \<open>(2 i - 1) (n - 1) / (2 n)\<close> for \<open>i = 1..n\<close>: the midpoints of the \<open>n\<close>
  equal bands of \<open>[0, n - 1]\<close>. For \<open>n \<ge> 2\<close> they are strictly increasing and fall strictly
  inside \<open>(0, n - 1)\<close>; for \<open>n = 1\<close> the only tick is \<open>0\<close>.
\<close>

theorem waffle_tick_positions:
  assumes "waffle_heatmap (waffle to_rgb df category_col value_col data title local_colors
             startcolor endcolor fig_height tile_gap grid_width) = Some t"
      and "waffle_data df category_col value_col data = Inr d"
      and "n = length d"
  shows "1 \<le> n \<and>
     hm_tickvals t = map (\<lambda>i. (2 * rat_of_nat i + 1) * (rat_of_nat n - 1) / (2 * rat_of_nat n)) [0..<n] \<and>
     (\<exists>bands. get_section_bounds (rat_of_nat n - 1) (int n) = Inr bands \<and>
               hm_tickvals t = map (\<lambda>(lo, hi). (lo + hi) / 2) bands) \<and>
     (2 \<le> n \<longrightarrow> sorted_wrt (<) (hm_tickvals t) \<and>
                list_all (\<lambda>v. 0 < v \<and> v < rat_of_nat n - 1) (hm_tickvals t)) \<and>
     (n = 1 \<longrightarrow> hm_tickvals t = [0])"
proof -
  have d: "d \<noteq> []" and tv: "hm_tickvals t = find_midpoints (int n - 1) (int n)"
    using waffle_ticks [OF assms(1,2)] assms(3) by simp_all
  have n: "1 \<le> n" using d assms(3) by (cases d) simp_all
  have eq: "hm_tickvals t =
      map (\<lambda>i. (2 * rat_of_nat i + 1) * (rat_of_nat n - 1) / (2 * rat_of_nat n)) [0..<n]"
    using tv by (simp only: find_midpoints_eq)
  have bands: "\<exists>bands. get_section_bounds (rat_of_nat n - 1) (int n) = Inr bands \<and>
               hm_tickvals t = map (\<lambda>(lo, hi). (lo + hi) / 2) bands"
  proof -
    have pos: "0 < n" using n by simp
    define bands where "bands = map (\<lambda>k. (rat_of_nat k * ((rat_of_nat n - 1) / rat_of_nat n),
                       (rat_of_nat k + 1) * ((rat_of_nat n - 1) / rat_of_nat n))) [0..<n]"
    have gsb: "get_section_bounds (rat_of_nat n - 1) (int n) = Inr bands"
      unfolding bands_def by (rule get_section_bounds_nat [OF pos])
    have "hm_tickvals t = map (\<lambda>(lo, hi). (lo + hi) / 2) bands"
      unfolding eq bands_def by (simp only: map_map comp_def case_prod_conv band_midpoint)
    with gsb show ?thesis by blast
  qed
  have incr: "sorted_wrt (<) (hm_tickvals t)" if "2 \<le> n"
    unfolding eq sorted_wrt_iff_nth_less using that by (simp add: tick_mono)
  have inside: "list_all (\<lambda>v. 0 < v \<and> v < rat_of_nat n - 1) (hm_tickvals t)" if "2 \<le> n"
    unfolding eq list_all_iff using that tick_bounds by auto
  have one: "hm_tickvals t = [0]" if "n = 1"
    unfolding eq using that by simp
  show ?thesis using n eq bands incr inside one by blast
qed

theorem waffle_tick_positions_witness:
  "waffle_data None None None (Some [(Str ''A'', Num 1), (Str ''B'', Num 2), (Str ''C'', Num 3)])
     = Inr [(Str ''A'', Num 1), (Str ''B'', Num 2), (Str ''C'', Num 3)]
   \<and> map_option hm_tickvals (waffle_heatmap (waffle named_colors None None None
        (Some [(Str ''A'', Num 1), (Str ''B'', Num 2), (Str ''C'', Num 3)]) [] (Some [''red'', ''blue''])
        ''lightblue'' ''darkblue'' 600 2 (Some 3)))
     = Some [1 / 3, 1, 5 / 3]
   \<and> sorted_wrt (<) [1 / 3, 1, 5 / 3 :: rat]
   \<and> list_all (\<lambda>v. 0 < v \<and> v < 2) [1 / 3, 1, 5 / 3 :: rat]"
proof -
  have h1: "waffle_heatmap (waffle named_colors None None None
        (Some [(Str ''A'', Num 1), (Str ''B'', Num 2), (Str ''C'', Num 3)]) [] (Some [''red'', ''blue''])
        ''lightblue'' ''darkblue'' 600 2 (Some 3))
      = Some \<lparr>hm_z = [[Some 1, Some 1, Some 0], [Some 2, Some 2, Some 2]],
           hm_xgap = 2, hm_ygap = 2, hm_tickvals = [1 / 3, 1, 5 / 3],
           hm_ticktext = [Str ''A'', Str ''B'', Str ''C''],
           hm_colorscale = [(0, ''red''), (1 / 3, ''red''), (1 / 3, ''blue''), (2 / 3, ''blue''),
                            (2 / 3, ''red''), (1, ''red'')],
           hm_autocolorscale = False\<rparr>"
    by code_simp
  have h2: "waffle_data None None None (Some [(Str ''A'', Num 1), (Str ''B'', Num 2), (Str ''C'', Num 3)])
     = Inr [(Str ''A'', Num 1), (Str ''B'', Num 2), (Str ''C'', Num 3)]"
    by (simp add: waffle_data_def)
  have h3: "(3::nat) = length [(Str ''A'', Num 1), (Str ''B'', Num 2), (Str ''C'', Num 3)]"
    by simp
  note ticks = waffle_tick_positions [OF h1 h2 h3]
  from ticks [THEN conjunct2, THEN conjunct2, THEN conjunct2, THEN conjunct1]
  have "sorted_wrt (<) [1 / 3, 1, 5 / 3 :: rat]
      \<and> list_all (\<lambda>v. 0 < v \<and> v < 2) [1 / 3, 1, 5 / 3 :: rat]"
    by simp
  then show ?thesis
    using h1 h2 by simp
qed

section \<open>Claim C4: empty counts, zero total and non-positive grid width\<close>

text \<open>
  C4 as stated fails: \<^verbatim>\<open>waffle\<close> has no check of the counts or of \<^verbatim>\<open>grid_width\<close> at entry.
  \<^verbatim>\<open>grid_width = 0\<close> is falsy in \<^verbatim>\<open>grid_width or math.ceil(math.sqrt(total))\<close>, so the default
  width is used and the chart is returned; and a zero total with a positive width gives
  height \<open>0\<close> and an empty grid, again without an error.
\<close>

theorem waffle_no_entry_validation_counterexample:
  "\<not> isl (waffle named_colors None None None (Some [(Str ''A'', Num 1), (Str ''B'', Num 3)]) []
            None ''lightblue'' ''darkblue'' 600 2 (Some 0))
   \<and> \<not> isl (waffle named_colors None None None (Some [(Str ''A'', Num 0), (Str ''B'', Num 0)]) []
            None ''lightblue'' ''darkblue'' 600 2 (Some 3))"
  by code_simp

text \<open>
  C4 (amended): \<^verbatim>\<open>waffle\<close> raises an error whenever the category-count input is empty,
  whenever the total of the counts is zero and \<^verbatim>\<open>grid_width\<close> is omitted or \<open>0\<close>, and whenever
  \<^verbatim>\<open>grid_width\<close> is negative; \<^verbatim>\<open>grid_width = 0\<close> behaves as an omitted width. The errors are
  those of the layout computation itself (lemma \<open>waffle_layout_errors\<close>: a division by zero
  in the height or the section bounds, numpy's refusal to reshape to a negative width), or
  of the steps that precede it.
\<close>

theorem waffle_invalid_inputs:
  "(waffle_data df category_col value_col data = Inr [] \<longrightarrow>
      isl (waffle to_rgb df category_col value_col data title local_colors startcolor endcolor
             fig_height tile_gap grid_width))
   \<and> (waffle_data df category_col value_col data = Inr d \<and> map snd d = map Num counts
        \<and> sum_list counts = 0 \<and> (grid_width = None \<or> grid_width = Some 0) \<longrightarrow>
      isl (waffle to_rgb df category_col value_col data title local_colors startcolor endcolor
             fig_height tile_gap grid_width))
   \<and> (grid_width = Some g \<and> g < 0 \<longrightarrow>
      isl (waffle to_rgb df category_col value_col data title local_colors startcolor endcolor
             fig_height tile_gap grid_width))
   \<and> waffle to_rgb df category_col value_col data title local_colors startcolor endcolor
        fig_height tile_gap (Some 0)
      = waffle to_rgb df category_col value_col data title local_colors startcolor endcolor
        fig_height tile_gap None"
proof (intro conjI impI)
  assume "waffle_data df category_col value_col data = Inr []"
  then show "isl (waffle to_rgb df category_col value_col data title local_colors startcolor
       endcolor fig_height tile_gap grid_width)"
    by (rule waffle_empty_counts)
next
  assume a: "waffle_data df category_col value_col data = Inr d \<and> map snd d = map Num counts
        \<and> sum_list counts = 0 \<and> (grid_width = None \<or> grid_width = Some 0)"
  then have "\<not> truthy_int grid_width" by (auto simp: truthy_int_def)
  with a show "isl (waffle to_rgb df category_col value_col data title local_colors startcolor
       endcolor fig_height tile_gap grid_width)"
    by (intro waffle_zero_total [of df category_col value_col data d counts]) simp_all
next
  assume "grid_width = Some g \<and> g < 0"
  then show "isl (waffle to_rgb df category_col value_col data title local_colors startcolor
       endcolor fig_height tile_gap grid_width)"
    using waffle_negative_width [of g] by simp
next
  show "waffle to_rgb df category_col value_col data title local_colors startcolor endcolor
        fig_height tile_gap (Some 0)
      = waffle to_rgb df category_col value_col data title local_colors startcolor endcolor
        fig_height tile_gap None"
    by (rule waffle_zero_width_same)
qed

theorem waffle_invalid_inputs_witness:
  "waffle named_colors None None None (Some []) [] None ''lightblue'' ''darkblue'' 600 2 (Some 3)
     = Inl ZeroDivisionError
   \<and> waffle named_colors None None None (Some [(Str ''A'', Num 0), (Str ''B'', Num 0)]) [] None
       ''lightblue'' ''darkblue'' 600 2 None = Inl ZeroDivisionError
   \<and> waffle named_colors None None None (Some [(Str ''A'', Num 1), (Str ''B'', Num 3)]) [] None
       ''lightblue'' ''darkblue'' 600 2 (Some (- 3)) = Inl (ValueError ''cannot reshape array'')
   \<and> isl (waffle named_colors None None None (Some []) [] None ''lightblue'' ''darkblue'' 600 2
            (Some 3))
   \<and> isl (waffle named_colors None None None (Some [(Str ''A'', Num 0), (Str ''B'', Num 0)]) [] None
       ''lightblue'' ''darkblue'' 600 2 None)
   \<and> isl (waffle named_colors None None None (Some [(Str ''A'', Num 1), (Str ''B'', Num 3)]) [] None
       ''lightblue'' ''darkblue'' 600 2 (Some (- 3)))"
proof -
  have e1: "waffle named_colors None None None (Some []) [] None ''lightblue'' ''darkblue'' 600 2
      (Some 3) = Inl ZeroDivisionError"
    by code_simp
  have e2: "waffle named_colors None None None (Some [(Str ''A'', Num 0), (Str ''B'', Num 0)]) []
      None ''lightblue'' ''darkblue'' 600 2 None = Inl ZeroDivisionError"
    by code_simp
  have e3: "waffle named_colors None None None (Some [(Str ''A'', Num 1), (Str ''B'', Num 3)]) []
      None ''lightblue'' ''darkblue'' 600 2 (Some (- 3)) = Inl (ValueError ''cannot reshape array'')"
    by code_simp
  have d1: "waffle_data None None None (Some []) = Inr []"
    by (simp add: waffle_data_def)
  have d2: "waffle_data None None None (Some [(Str ''A'', Num 0), (Str ''B'', Num 0)])
        = Inr [(Str ''A'', Num 0), (Str ''B'', Num 0)]
      \<and> map snd [(Str ''A'', Num 0), (Str ''B'', Num 0)] = map Num [0, 0]
      \<and> sum_list [0, 0 :: int] = 0 \<and> ((None :: int option) = None \<or> None = Some (0::int))"
    by (simp add: waffle_data_def)
  have d3: "Some (- 3) = Some (- 3 :: int) \<and> (- 3 :: int) < 0" by simp
  have i1: "isl (waffle named_colors None None None (Some []) [] None ''lightblue'' ''darkblue''
      600 2 (Some 3))"
    using waffle_invalid_inputs [of None None None "Some []" named_colors "[]" None
        "''lightblue''" "''darkblue''" 600 2 "Some 3", THEN conjunct1] d1
    by blast
  have i2: "isl (waffle named_colors None None None (Some [(Str ''A'', Num 0), (Str ''B'', Num 0)])
      [] None ''lightblue'' ''darkblue'' 600 2 None)"
    using waffle_invalid_inputs [of None None None "Some [(Str ''A'', Num 0), (Str ''B'', Num 0)]"
        named_colors "[]" None "''lightblue''" "''darkblue''" 600 2 None
        "[(Str ''A'', Num 0), (Str ''B'', Num 0)]" "[0, 0]",
        THEN conjunct2, THEN conjunct1] d2
    by blast
  have i3: "isl (waffle named_colors None None None (Some [(Str ''A'', Num 1), (Str ''B'', Num 3)])
      [] None ''lightblue'' ''darkblue'' 600 2 (Some (- 3)))"
    using waffle_invalid_inputs [of None None None "Some [(Str ''A'', Num 1), (Str ''B'', Num 3)]"
        named_colors "[]" None "''lightblue''" "''darkblue''" 600 2 "Some (- 3)" _ _ "- 3",
        THEN conjunct2, THEN conjunct2, THEN conjunct1] d3
    by blast
  show ?thesis using e1 e2 e3 i1 i2 i3 by blast
qed

section \<open>Claim C5: the colour scale\<close>




section \<open>Claim C6: the single-category example\<close>

text \<open>
  C6: \<^verbatim>\<open>waffle(data={"X": 5}, grid_width=3)\<close> with the default colours does not return a
  chart: it raises \<^verbatim>\<open>ZeroDivisionError\<close> in \<^verbatim>\<open>get_color_gradient\<close>. With a colour list
  supplied, the same input gives the grid of the example: two rows of three cells, one of
  them padding and five carrying the index of \<open>X\<close>.
\<close>

theorem waffle_single_category_example:
  "waffle named_colors None None None (Some [(Str ''X'', Num 5)]) [] None
     ''lightblue'' ''darkblue'' 600 2 (Some 3) = Inl ZeroDivisionError"
  by code_simp

lemma waffle_single_category_with_colors:
  "map_option hm_z (waffle_heatmap (waffle named_colors None None None (Some [(Str ''X'', Num 5)])
       [] (Some [''#add8e6'']) ''lightblue'' ''darkblue'' 600 2 (Some 3)))
     = Some [[Some 0, Some 0, None], [Some 0, Some 0, Some 0]]"
  by code_simp

section \<open>Claim C7: the repeated definitions\<close>


section \<open>Claim C8: the default measure of a waterfall chart\<close>

text \<open>
  C8: whenever the input selection of \<^verbatim>\<open>waterfall\<close> yields \<open>n\<close> category labels and \<^verbatim>\<open>measure\<close>
  is omitted, \<^verbatim>\<open>waterfall\<close> returns a chart over those labels whose measure list is
  \<^verbatim>\<open>'relative'\<close> repeated \<open>n - 1\<close> times followed by one \<^verbatim>\<open>'total'\<close>.
\<close>

theorem waterfall_default_measure:
  assumes "waterfall_data df category_col value_col labels data = Inr (ls, ds)"
    and "n = length ls"
  shows "\<exists>fig t. waterfall df category_col value_col labels data title annotation
                    icolor dcolor tcolor ccolor color None = Inr fig
     \<and> fig_data fig = [Waterfall t]
     \<and> wf_x t = ls \<and> wf_y t = ds
     \<and> wf_measure t = replicate (n - 1) ''relative'' @ [''total'']"
proof -
  have "nat (int (length ls) - 1) = n - 1" using assms(2) by simp
  then show ?thesis
    using assms(1) by (simp add: waterfall_def Let_def)
qed

theorem waterfall_default_measure_witness:
  "map_sum id fig_data (waterfall None None None (Some [Str ''a'', Str ''b'', Str ''c''])
       (Some [Num 1, Num 2, Num 3]) [] None ''Green'' ''Red'' ''Blue'' ''Dark Grey'' None None)
     = Inr [Waterfall \<lparr>wf_orientation = ''v'',
              wf_measure = [''relative'', ''relative'', ''total''],
              wf_textposition = ''outside'', wf_y = [Num 1, Num 2, Num 3],
              wf_x = [Str ''a'', Str ''b'', Str ''c''], wf_connector = ''Dark Grey'',
              wf_decreasing = ''Red'', wf_increasing = ''Green'', wf_totals = ''Blue'',
              wf_text = None\<rparr>]
   \<and> replicate (3 - 1) ''relative'' @ [''total''] = [''relative'', ''relative'', ''total'']"
proof -
  have h1: "waterfall_data None None None (Some [Str ''a'', Str ''b'', Str ''c''])
       (Some [Num 1, Num 2, Num 3]) = Inr ([Str ''a'', Str ''b'', Str ''c''], [Num 1, Num 2, Num 3])"
    by (simp add: waterfall_data_lists)
  have h2: "(3::nat) = length [Str ''a'', Str ''b'', Str ''c'']" by simp
  have eval: "map_sum id fig_data (waterfall None None None (Some [Str ''a'', Str ''b'', Str ''c''])
       (Some [Num 1, Num 2, Num 3]) [] None ''Green'' ''Red'' ''Blue'' ''Dark Grey'' None None)
     = Inr [Waterfall \<lparr>wf_orientation = ''v'',
              wf_measure = [''relative'', ''relative'', ''total''],
              wf_textposition = ''outside'', wf_y = [Num 1, Num 2, Num 3],
              wf_x = [Str ''a'', Str ''b'', Str ''c''], wf_connector = ''Dark Grey'',
              wf_decreasing = ''Red'', wf_increasing = ''Green'', wf_totals = ''Blue'',
              wf_text = None\<rparr>]"
    by code_simp
  from waterfall_default_measure [OF h1 h2, of "[]" None "''Green''" "''Red''" "''Blue''"
      "''Dark Grey''" None]
  obtain fig t where "waterfall None None None (Some [Str ''a'', Str ''b'', Str ''c''])
       (Some [Num 1, Num 2, Num 3]) [] None ''Green'' ''Red'' ''Blue'' ''Dark Grey'' None None = Inr fig"
    and "fig_data fig = [Waterfall t]"
    and "wf_measure t = replicate (3 - 1) ''relative'' @ [''total'']"
    by blast
  with eval have "replicate (3 - 1) ''relative'' @ [''total''] = [''relative'', ''relative'', ''total'']"
    by simp
  then show ?thesis using eval by simp
qed

section \<open>Claim C9: the length check of dumbbell and line_range\<close>




section \<open>Claim C10: one category and no colour list\<close>

text \<open>
  C10: for \<^verbatim>\<open>num_colors = 1\<close> (and two colours that matplotlib accepts)
  \<^verbatim>\<open>get_color_gradient\<close> raises \<^verbatim>\<open>ZeroDivisionError\<close>: it divides \<open>0\<close> by
  \<^verbatim>\<open>num_colors - 1 = 0\<close>. So every \<^verbatim>\<open>waffle\<close> call whose mapping has exactly one category and
  whose \<^verbatim>\<open>local_colors\<close> is omitted fails with the error of that call to
  \<^verbatim>\<open>get_color_gradient\<close>, which precedes the grid layout, whatever the counts and the grid
  width are.
\<close>

theorem single_category_gradient_fails:
  "(to_rgb startcolor \<noteq> None \<and> to_rgb endcolor \<noteq> None \<longrightarrow>
      get_color_gradient to_rgb startcolor endcolor 1 = Inl ZeroDivisionError) \<and>
   (waffle_data df category_col value_col data = Inr d \<and> length d = 1 \<longrightarrow>
      (\<exists>e. get_color_gradient to_rgb startcolor endcolor 1 = Inl e \<and>
           waffle to_rgb df category_col value_col data title None startcolor endcolor
             fig_height tile_gap grid_width = Inl e))"
proof (intro conjI impI)
  assume "to_rgb startcolor \<noteq> None \<and> to_rgb endcolor \<noteq> None"
  then show "get_color_gradient to_rgb startcolor endcolor 1 = Inl ZeroDivisionError"
    by (simp add: get_color_gradient_one)
next
  assume a: "waffle_data df category_col value_col data = Inr d \<and> length d = 1"
  obtain e where e: "get_color_gradient to_rgb startcolor endcolor 1 = Inl e"
    using get_color_gradient_one_isl by blast
  have "waffle to_rgb df category_col value_col data title None startcolor endcolor
             fig_height tile_gap grid_width = Inl e"
    using a e by (simp add: waffle_def waffle_colors_def)
  with e show "\<exists>e. get_color_gradient to_rgb startcolor endcolor 1 = Inl e \<and>
           waffle to_rgb df category_col value_col data title None startcolor endcolor
             fig_height tile_gap grid_width = Inl e"
    by blast
qed

theorem single_category_gradient_fails_witness:
  "get_color_gradient named_colors ''lightblue'' ''darkblue'' 1 = Inl ZeroDivisionError
   \<and> waffle named_colors None None None (Some [(Str ''X'', Num 5)]) [] None
        ''lightblue'' ''darkblue'' 600 2 (Some 3) = Inl ZeroDivisionError"
proof -
  have c: "named_colors ''lightblue'' \<noteq> None \<and> named_colors ''darkblue'' \<noteq> None"
    by (simp add: named_colors_def)
  have d: "waffle_data None None None (Some [(Str ''X'', Num 5)]) = Inr [(Str ''X'', Num 5)]
      \<and> length [(Str ''X'', Num 5)] = 1"
    by (simp add: waffle_data_def)
  note th = single_category_gradient_fails [of named_colors "''lightblue''" "''darkblue''"
      None None None "Some [(Str ''X'', Num 5)]" "[(Str ''X'', Num 5)]" "[]" 600 2 "Some 3"]
  from th c have g: "get_color_gradient named_colors ''lightblue'' ''darkblue'' 1 = Inl ZeroDivisionError"
    by blast
  from th d obtain e where "get_color_gradient named_colors ''lightblue'' ''darkblue'' 1 = Inl e"
    and "waffle named_colors None None None (Some [(Str ''X'', Num 5)]) [] None
        ''lightblue'' ''darkblue'' 600 2 (Some 3) = Inl e"
    by blast
  with g show ?thesis by simp
qed

end
